theory Spec2Isabelle
  imports Main
begin

section \<open>Strings\<close>

text \<open>
  The orchestrator of \<^verbatim>\<open>index.tsx\<close> inspects the submitted text with
  \<^verbatim>\<open>trim\<close>, \<^verbatim>\<open>toLowerCase\<close>, \<^verbatim>\<open>startsWith\<close>, \<^verbatim>\<open>substring\<close>,
  \<^verbatim>\<open>includes\<close> and three regular expressions of the shape \<^verbatim>\<open>/\b(w1|...|wn)\b/\<close>.
  A string is a list of characters with code points below 256; every literal and
  every pattern of the source is ASCII.
\<close>

definition isWhiteSpace :: "char \<Rightarrow> bool" where
  "isWhiteSpace c =
     (c \<in> set [CHR 0x09, CHR 0x0A, CHR 0x0B, CHR 0x0C, CHR 0x0D, CHR 0x20, CHR 0xA0])"

definition trim :: "string \<Rightarrow> string" where
  "trim s = rev (dropWhile isWhiteSpace (rev (dropWhile isWhiteSpace s)))"

definition toLowerChar :: "char \<Rightarrow> char" where
  "toLowerChar c =
     (let n = (of_char c :: nat) in
      if (65 \<le> n \<and> n \<le> 90) \<or> (192 \<le> n \<and> n \<le> 222 \<and> n \<noteq> 215)
      then char_of (n + 32) else c)"

definition toLowerCase :: "string \<Rightarrow> string" where
  "toLowerCase s = map toLowerChar s"

definition startsWith :: "string \<Rightarrow> string \<Rightarrow> bool" where
  "startsWith s p = (take (length p) s = p)"

definition substring :: "string \<Rightarrow> nat \<Rightarrow> string" where
  "substring s n = drop n s"

definition includesStr :: "string \<Rightarrow> string \<Rightarrow> bool" where
  "includesStr s p = list_ex (\<lambda>i. startsWith (drop i s) p) [0 ..< Suc (length s)]"

text \<open>
  \<^verbatim>\<open>\w\<close> is \<^verbatim>\<open>[A-Za-z0-9_]\<close>; \<^verbatim>\<open>\b\<close> holds between two positions exactly
  when one side is a word character and the other is not, the outside of the input
  counting as a non-word character (\<open>None\<close>).
\<close>

definition isWordChar :: "char option \<Rightarrow> bool" where
  "isWordChar co =
     (case co of
        None \<Rightarrow> False
      | Some c \<Rightarrow>
          (let n = (of_char c :: nat) in
           (97 \<le> n \<and> n \<le> 122) \<or> (65 \<le> n \<and> n \<le> 90) \<or> (48 \<le> n \<and> n \<le> 57) \<or> n = 95))"

definition wordBoundary :: "char option \<Rightarrow> char option \<Rightarrow> bool" where
  "wordBoundary l r = (isWordChar l \<noteq> isWordChar r)"

definition charAt :: "string \<Rightarrow> char option" where
  "charAt s = (case s of [] \<Rightarrow> None | c # _ \<Rightarrow> Some c)"

definition matchHere :: "string \<Rightarrow> char option \<Rightarrow> string \<Rightarrow> bool" where
  "matchHere w prev rest =
     (startsWith rest w
      \<and> wordBoundary prev (charAt rest)
      \<and> wordBoundary (if w = [] then prev else Some (last w)) (charAt (drop (length w) rest)))"

text \<open>
  \<^verbatim>\<open>/\b(w1|...|wn)\b/.test(s)\<close>: some alternative matches at some position, between
  two word boundaries. \<open>prev\<close> is the character left of the current position.
\<close>

fun regexTest :: "string list \<Rightarrow> char option \<Rightarrow> string \<Rightarrow> bool" where
  "regexTest alts prev [] = list_ex (\<lambda>w. matchHere w prev []) alts"
| "regexTest alts prev (c # cs) =
     (list_ex (\<lambda>w. matchHere w prev (c # cs)) alts \<or> regexTest alts (Some c) cs)"

definition timeDateRegex :: "string \<Rightarrow> bool" where
  "timeDateRegex s = regexTest [''time'', ''date''] None s"

definition creatorRegex :: "string \<Rightarrow> bool" where
  "creatorRegex s =
     regexTest [''developed you'', ''your developer'', ''your creator'',
                ''created you'', ''made you''] None s"

text \<open>
  The map pattern carries the flag \<^verbatim>\<open>i\<close>; it is tested on the lower-cased input and
  its alternatives are lower case, so the flag changes nothing.
\<close>

definition mapQueryRegex :: "string \<Rightarrow> bool" where
  "mapQueryRegex s =
     regexTest [''near'', ''nearby'', ''location'', ''place'', ''restaurant'', ''cafe'',
                ''hotel'', ''park'', ''address'', ''direction'', ''where is'', ''at''] None s"

text \<open>
  The map pattern as the specification words it, for comparison with
  \<open>mapQueryRegex\<close>: nearby, location, place, address, where is.
\<close>

definition specMapQueryPattern :: "string \<Rightarrow> bool" where
  "specMapQueryPattern s =
     regexTest [''nearby'', ''location'', ''place'', ''address'', ''where is''] None s"

section \<open>Data model\<close>

text \<open>\<^verbatim>\<open>types.ts\<close>. An optional field is an \<open>option\<close>; \<^verbatim>\<open>audioBuffer\<close>, a cache
  of the speech player that the orchestrator never touches, is left out.\<close>

datatype Role = USER | MODEL

datatype MessageType = TextType | ImageType

record Source =
  title :: string
  uri :: string

record Message =
  msg_id :: "string option"
  role :: Role
  msg_text :: string
  sources :: "Source list option"
  msg_image :: "string option"
  agentName :: "string option"
  msg_type :: "MessageType option"
  isLoading :: "bool option"

text \<open>\<^verbatim>\<open>m.isLoading\<close> as a condition: an absent field is falsy.\<close>

definition loading :: "Message \<Rightarrow> bool" where
  "loading m = (isLoading m = Some True)"

record Attachment =
  att_data :: string
  mimeType :: string
  url :: string

text \<open>What \<^verbatim>\<open>selectAgent\<close> of \<^verbatim>\<open>agentManager\<close> returns (or null).\<close>

record Agent =
  agent_name :: string
  agent_role :: string
  agent_description :: string
  agent_instructions :: string

subsection \<open>The completion service\<close>

datatype Part = TextPart string | InlineData string string

record Content =
  content_role :: Role
  parts :: "Part list"

datatype Tool = GoogleSearch | GoogleMaps

record LatLng =
  latitude :: int
  longitude :: int

record Request =
  model :: string
  contents :: "Content list"
  systemInstruction :: string
  tools :: "Tool list"
  toolConfig :: "LatLng option"

record RawSource =
  raw_uri :: "string option"
  raw_title :: "string option"

record GroundingChunk =
  web :: "RawSource option"
  maps :: "RawSource option"

record Chunk =
  chunk_text :: "string option"
  groundingChunks :: "GroundingChunk list option"

text \<open>
  What the \<^verbatim>\<open>catch\<close> receives (\<^verbatim>\<open>error: any\<close>): \<^verbatim>\<open>null\<close>, \<^verbatim>\<open>undefined\<close>, or
  any other value, given by its \<^verbatim>\<open>message\<close> property when it has one and by what the
  value itself prints as.
\<close>

datatype Thrown = ThrownNull | ThrownUndefined | ThrownValue "string option" string

datatype GeoFailure = PermissionDenied | PositionUnavailable | Timeout | Unsupported

text \<open>
  Everything \<^verbatim>\<open>sendMessage\<close> reads from outside: the clock (read twice for the two
  ids, and once more for the time answer), the API key, the two functions of
  \<^verbatim>\<open>agentManager\<close> (not part of the sources at hand, hence parameters), the
  geolocation provider and the streaming call. A stream is the chunks it delivers and
  how it ends: \<open>None\<close> normally, \<open>Some e\<close> with the error \<open>e\<close> thrown; a call that is
  rejected before the first chunk is \<open>([], Some e)\<close>. Coordinates are passed through
  unchanged and are integers here.
\<close>

record Env =
  dateNowUser :: string
  dateNowModel :: string
  localeString :: string
  apiKey :: "string option"
  selectAgent :: "string \<Rightarrow> Agent option"
  generateImageUrl :: "string \<Rightarrow> string"
  geolocation :: "GeoFailure + LatLng"
  generateContentStream :: "Request \<Rightarrow> Chunk list \<times> Thrown option"

section \<open>State and its updates\<close>

text \<open>
  The state of \<^verbatim>\<open>App\<close> that \<^verbatim>\<open>sendMessage\<close> writes: the transcript, the input box
  and the pending attachment. Every write of the source is one of these shapes:
  \<^item> \<open>AppendTurn u m\<close>: \<^verbatim>\<open>setMessages(prev => [...prev, u, m])\<close>;
  \<^item> \<open>ClearInput\<close>: \<^verbatim>\<open>setInput(''); setAttachment(null)\<close>;
  \<^item> \<open>FillText i t\<close>:
    \<^verbatim>\<open>setMessages(prev => prev.map(m => m.id === i ? { ...m, text: t, isLoading: false } : m))\<close>;
  \<^item> \<open>SetSources i s\<close>:
    \<^verbatim>\<open>setMessages(prev => prev.map(m => m.id === i ? { ...m, sources: s } : m))\<close>;
  \<^item> \<open>FillRaises i\<close>: the updater of \<open>FillText\<close> when evaluating its text raises. It
    raises at the first message with id \<open>i\<close> and returns the transcript unchanged when
    there is none; either way no new transcript is written. \<open>raisesTypeError\<close> tells
    the two apart: the exception is not caught anywhere in the source.
\<close>

record AppState =
  messages :: "Message list"
  input :: string
  attachment :: "Attachment option"

datatype Update =
    AppendTurn Message Message
  | ClearInput
  | FillText string string
  | SetSources string "Source list"
  | FillRaises string

fun applyUpdate :: "Update \<Rightarrow> AppState \<Rightarrow> AppState" where
  "applyUpdate (AppendTurn u m) st = st\<lparr>messages := messages st @ [u, m]\<rparr>"
| "applyUpdate ClearInput st = st\<lparr>input := [], attachment := None\<rparr>"
| "applyUpdate (FillText i t) st =
     st\<lparr>messages :=
          map (\<lambda>m. if msg_id m = Some i then m\<lparr>msg_text := t, isLoading := Some False\<rparr> else m)
              (messages st)\<rparr>"
| "applyUpdate (SetSources i s) st =
     st\<lparr>messages :=
          map (\<lambda>m. if msg_id m = Some i then m\<lparr>sources := Some s\<rparr> else m) (messages st)\<rparr>"
| "applyUpdate (FillRaises i) st = st"

fun raisesTypeError :: "Update \<Rightarrow> AppState \<Rightarrow> bool" where
  "raisesTypeError (FillRaises i) st = list_ex (\<lambda>m. msg_id m = Some i) (messages st)"
| "raisesTypeError _ st = False"

definition applyAll :: "Update list \<Rightarrow> AppState \<Rightarrow> AppState" where
  "applyAll us st = foldl (\<lambda>s u. applyUpdate u s) st us"

text \<open>
  What one call of \<^verbatim>\<open>sendMessage\<close> does, in order: its writes to the state, the
  texts it passed to \<^verbatim>\<open>selectAgent\<close>, the timeouts (in milliseconds) of its
  geolocation reads and the requests it sent to the completion service.
\<close>

record Turn =
  updates :: "Update list"
  agentCalls :: "string list"
  geoCalls :: "nat list"
  requests :: "Request list"

definition noTurn :: Turn where
  "noTurn = \<lparr>updates = [], agentCalls = [], geoCalls = [], requests = []\<rparr>"

section \<open>The streaming loop\<close>

definition truthy :: "string option \<Rightarrow> bool" where
  "truthy so = (case so of None \<Rightarrow> False | Some s \<Rightarrow> s \<noteq> [])"

text \<open>\<^verbatim>\<open>if (c.web) return c.web; if (c.maps) return c.maps; return null;\<close>\<close>

definition pickSource :: "GroundingChunk \<Rightarrow> RawSource option" where
  "pickSource c = (case web c of Some w \<Rightarrow> Some w | None \<Rightarrow> maps c)"

text \<open>\<^verbatim>\<open>.filter(s => !!(s?.uri && s.title))\<close>, the kept entries read as sources.\<close>

definition keptSource :: "RawSource option \<Rightarrow> Source option" where
  "keptSource so =
     (case so of
        None \<Rightarrow> None
      | Some s \<Rightarrow>
          (case (raw_uri s, raw_title s) of
             (Some u, Some t) \<Rightarrow>
               if truthy (Some u) \<and> truthy (Some t) then Some \<lparr>title = t, uri = u\<rparr> else None
           | _ \<Rightarrow> None))"

definition chunkSources :: "Chunk \<Rightarrow> Source list" where
  "chunkSources chunk =
     (case groundingChunks chunk of
        None \<Rightarrow> []
      | Some gcs \<Rightarrow> List.map_filter keptSource (map pickSource gcs))"

text \<open>
  \<^verbatim>\<open>[...accumulatedSources, ...sources.filter(s => !accumulatedSources.some(exist => exist.uri === s.uri))]\<close>
\<close>

definition mergeSources :: "Source list \<Rightarrow> Source list \<Rightarrow> Source list" where
  "mergeSources accumulatedSources srcs =
     accumulatedSources
     @ filter (\<lambda>s. \<not> list_ex (\<lambda>exist. uri exist = uri s) accumulatedSources) srcs"

text \<open>The body of \<^verbatim>\<open>for await (const chunk of responseStream)\<close>, with its two
  accumulators.\<close>

fun streamLoop :: "string \<Rightarrow> string \<Rightarrow> Source list \<Rightarrow> Chunk list \<Rightarrow> Update list" where
  "streamLoop placeholderId fullText accumulatedSources [] = []"
| "streamLoop placeholderId fullText accumulatedSources (chunk # rest) =
     (let hasText = truthy (chunk_text chunk);
          fullText' = (case chunk_text chunk of
                         Some t \<Rightarrow> if hasText then fullText @ t else fullText
                       | None \<Rightarrow> fullText);
          srcs = chunkSources chunk;
          accumulatedSources' =
            (if srcs \<noteq> [] then mergeSources accumulatedSources srcs else accumulatedSources)
      in (if hasText then [FillText placeholderId fullText'] else [])
         @ (if srcs \<noteq> [] then [SetSources placeholderId accumulatedSources'] else [])
         @ streamLoop placeholderId fullText' accumulatedSources' rest)"

text \<open>\<^verbatim>\<open>${error.message || error}\<close>. Reading \<^verbatim>\<open>message\<close> of \<^verbatim>\<open>null\<close> or of
  \<^verbatim>\<open>undefined\<close> raises a TypeError: there is no detail then (\<open>None\<close>).\<close>

fun errorDetail :: "Thrown \<Rightarrow> string option" where
  "errorDetail ThrownNull = None"
| "errorDetail ThrownUndefined = None"
| "errorDetail (ThrownValue message printed) =
     Some (if truthy message then (case message of Some m \<Rightarrow> m | None \<Rightarrow> []) else printed)"

text \<open>The write of the \<^verbatim>\<open>catch\<close>. The template is evaluated inside the updater, so
  without a detail the updater raises instead of returning a transcript.\<close>

definition catchUpdate :: "string \<Rightarrow> Thrown \<Rightarrow> Update" where
  "catchUpdate placeholderId error =
     (case errorDetail error of
        Some detail \<Rightarrow> FillText placeholderId (''Connection Error: '' @ detail)
      | None \<Rightarrow> FillRaises placeholderId)"

section \<open>sendMessage\<close>

definition isBusy :: "Message list \<Rightarrow> bool" where
  "isBusy msgs = list_ex loading msgs"

definition userMessage :: "Env \<Rightarrow> string \<Rightarrow> Attachment option \<Rightarrow> Message" where
  "userMessage env messageText imageAttachment =
     \<lparr>msg_id = Some (dateNowUser env @ ''-user''), role = USER, msg_text = trim messageText,
      sources = None, msg_image = map_option url imageAttachment, agentName = None,
      msg_type = None, isLoading = None\<rparr>"

definition placeholderId :: "Env \<Rightarrow> string" where
  "placeholderId env = dateNowModel env @ ''-model''"

definition imageMessage :: "Env \<Rightarrow> string \<Rightarrow> Message" where
  "imageMessage env prompt =
     \<lparr>msg_id = Some (placeholderId env), role = MODEL, msg_text = generateImageUrl env prompt,
      sources = None, msg_image = None, agentName = Some ''Creative Agent'',
      msg_type = Some ImageType, isLoading = None\<rparr>"

definition placeholder :: "Env \<Rightarrow> string \<Rightarrow> Message" where
  "placeholder env name =
     \<lparr>msg_id = Some (placeholderId env), role = MODEL, msg_text = [], sources = None,
      msg_image = None, agentName = Some name, msg_type = None, isLoading = Some True\<rparr>"

definition finalSystemInstruction :: "Agent option \<Rightarrow> string \<Rightarrow> string" where
  "finalSystemInstruction selectedAgent name =
     (case selectedAgent of
        Some agent \<Rightarrow>
          agent_instructions agent @ [CHR 0x0A, CHR 0x0A] @ ''CURRENT AGENT MODE: '' @ name
          @ [CHR 0x0A] @ ''ROLE: '' @ agent_role agent
          @ [CHR 0x0A] @ ''DESCRIPTION: '' @ agent_description agent
      | None \<Rightarrow>
          ''You are Zephyr, a helpful AI assistant created by Quantum Coders. ''
          @ ''Responses should be formatted in Markdown.'')"

definition historyForAPI :: "Message list \<Rightarrow> Content list" where
  "historyForAPI msgs =
     map (\<lambda>msg. \<lparr>content_role = role msg, parts = [TextPart (msg_text msg)]\<rparr>)
         (filter (\<lambda>m. \<not> loading m) msgs)"

definition currentParts :: "string \<Rightarrow> Attachment option \<Rightarrow> Part list" where
  "currentParts messageText imageAttachment =
     (if trim messageText \<noteq> [] then [TextPart (trim messageText)] else [])
     @ (case imageAttachment of
          None \<Rightarrow> []
        | Some a \<Rightarrow> [InlineData (mimeType a) (att_data a)])"

text \<open>The request that the \<^verbatim>\<open>try\<close> block builds, tool selection included. A failed
  geolocation read is caught by the inner \<^verbatim>\<open>try\<close> and leaves \<^verbatim>\<open>toolConfig\<close>
  undefined.\<close>

definition buildRequest ::
  "Env \<Rightarrow> Message list \<Rightarrow> string \<Rightarrow> Attachment option \<Rightarrow> Agent option \<Rightarrow> string \<Rightarrow> Request" where
  "buildRequest env msgs messageText imageAttachment selectedAgent name =
     (let lowerCaseInput = toLowerCase (trim messageText);
          isMapQuery = mapQueryRegex lowerCaseInput
      in \<lparr>model = ''gemini-2.5-flash'',
          contents = historyForAPI msgs
                     @ [\<lparr>content_role = USER, parts = currentParts messageText imageAttachment\<rparr>],
          systemInstruction = finalSystemInstruction selectedAgent name,
          tools = GoogleSearch # (if isMapQuery then [GoogleMaps] else []),
          toolConfig = (if isMapQuery
                        then (case geolocation env of Inr pos \<Rightarrow> Some pos | Inl _ \<Rightarrow> None)
                        else None)\<rparr>)"

text \<open>The \<^verbatim>\<open>try\<close>/\<^verbatim>\<open>catch\<close> of \<^verbatim>\<open>sendMessage\<close>: geolocation (read with
  \<^verbatim>\<open>{ timeout: 10000 }\<close>) when the map pattern matches, one streaming request, the
  loop over its chunks, and the \<^verbatim>\<open>catch\<close> when the stream ends with an error.\<close>

definition tryBlock ::
  "Env \<Rightarrow> Message list \<Rightarrow> string \<Rightarrow> Attachment option \<Rightarrow> Agent option \<Rightarrow> string \<Rightarrow> Turn" where
  "tryBlock env msgs messageText imageAttachment selectedAgent name =
     (let request = buildRequest env msgs messageText imageAttachment selectedAgent name;
          (chunks, ending) = generateContentStream env request
      in \<lparr>updates =
            streamLoop (placeholderId env) [] [] chunks
            @ (case ending of
                 None \<Rightarrow> []
               | Some error \<Rightarrow> [catchUpdate (placeholderId env) error]),
          agentCalls = [],
          geoCalls = (if mapQueryRegex (toLowerCase (trim messageText)) then [10000] else []),
          requests = [request]\<rparr>)"

text \<open>The conditions of \<^verbatim>\<open>sendMessage\<close>, in the order of the source.\<close>

definition rejected :: "Message list \<Rightarrow> string \<Rightarrow> Attachment option \<Rightarrow> bool" where
  "rejected msgs messageText imageAttachment =
     ((trim messageText = [] \<and> imageAttachment = None) \<or> isBusy msgs)"

definition imageCommand :: "string \<Rightarrow> bool" where
  "imageCommand messageText =
     (startsWith (toLowerCase (trim messageText)) ''/image ''
      \<and> substring (trim messageText) 7 \<noteq> [])"

definition timeAnswer :: "string \<Rightarrow> Attachment option \<Rightarrow> bool" where
  "timeAnswer messageText imageAttachment =
     (imageAttachment = None \<and> timeDateRegex (toLowerCase (trim messageText)))"

definition creatorAnswer :: "string \<Rightarrow> Attachment option \<Rightarrow> bool" where
  "creatorAnswer messageText imageAttachment =
     (imageAttachment = None
      \<and> creatorRegex (toLowerCase (trim messageText))
      \<and> \<not> includesStr (toLowerCase (trim messageText)) ''quantum coders'')"

text \<open>\<^verbatim>\<open>selectedAgent ? selectedAgent.name : "Zephyr"\<close>\<close>

definition selectedName :: "Env \<Rightarrow> string \<Rightarrow> string" where
  "selectedName env messageText =
     (case selectAgent env messageText of Some agent \<Rightarrow> agent_name agent | None \<Rightarrow> ''Zephyr'')"

text \<open>The immediate update: the user message and the loading placeholder.\<close>

definition created :: "Env \<Rightarrow> string \<Rightarrow> Attachment option \<Rightarrow> Update list" where
  "created env messageText imageAttachment =
     [AppendTurn (userMessage env messageText imageAttachment)
                 (placeholder env (selectedName env messageText)),
      ClearInput]"

text \<open>A turn answered on the spot: the placeholder is filled and the call returns.\<close>

definition answer :: "Env \<Rightarrow> string \<Rightarrow> Attachment option \<Rightarrow> string \<Rightarrow> Turn" where
  "answer env messageText imageAttachment t =
     \<lparr>updates = created env messageText imageAttachment @ [FillText (placeholderId env) t],
      agentCalls = [messageText], geoCalls = [], requests = []\<rparr>"

text \<open>From \<^verbatim>\<open>const apiKey = process.env.API_KEY\<close> to the end of the function.\<close>

definition fromApiKey :: "Env \<Rightarrow> Message list \<Rightarrow> string \<Rightarrow> Attachment option \<Rightarrow> Turn" where
  "fromApiKey env msgs messageText imageAttachment =
     (if \<not> truthy (apiKey env) then answer env messageText imageAttachment ''Error: API Key missing.''
      else
        let t = tryBlock env msgs messageText imageAttachment (selectAgent env messageText)
                  (selectedName env messageText)
        in t\<lparr>updates := created env messageText imageAttachment @ updates t,
             agentCalls := [messageText]\<rparr>)"

definition sendMessage :: "Env \<Rightarrow> Message list \<Rightarrow> string \<Rightarrow> Attachment option \<Rightarrow> Turn" where
  "sendMessage env msgs messageText imageAttachment =
     (if rejected msgs messageText imageAttachment then noTurn
      else if imageCommand messageText then
        \<lparr>updates = [AppendTurn (userMessage env messageText imageAttachment)
                               (imageMessage env (substring (trim messageText) 7)),
                    ClearInput],
         agentCalls = [], geoCalls = [], requests = []\<rparr>
      else if timeAnswer messageText imageAttachment then
        answer env messageText imageAttachment
          (''The current date and time is: '' @ localeString env)
      else if creatorAnswer messageText imageAttachment then
        answer env messageText imageAttachment ''I was created by **Mohammad Rayyan Ali**.''
      else fromApiKey env msgs messageText imageAttachment)"

text \<open>
  The argument \<open>msgs\<close> of \<open>sendMessage\<close> is \<^verbatim>\<open>messages\<close> as the call reads it: the
  transcript of the render in which the call was made. The guard and the history of the
  request read it. The writes are functional updates: each acts on the state that is
  current when it lands, and \<^verbatim>\<open>await selectAgent(messageText)\<close> stands between the
  guard and the first write.

  One call made on a state and run to its end, with no other write in between:
\<close>

definition afterTurn :: "Env \<Rightarrow> AppState \<Rightarrow> string \<Rightarrow> Attachment option \<Rightarrow> AppState" where
  "afterTurn env st messageText imageAttachment =
     applyAll (updates (sendMessage env (messages st) messageText imageAttachment)) st"

text \<open>The turn gets as far as the request to the completion service.\<close>

definition reachesService :: "Env \<Rightarrow> Message list \<Rightarrow> string \<Rightarrow> Attachment option \<Rightarrow> bool" where
  "reachesService env msgs messageText imageAttachment =
     (\<not> rejected msgs messageText imageAttachment
      \<and> \<not> imageCommand messageText
      \<and> \<not> timeAnswer messageText imageAttachment
      \<and> \<not> creatorAnswer messageText imageAttachment
      \<and> truthy (apiKey env))"

section \<open>Loading messages\<close>

definition loadingCount :: "Message list \<Rightarrow> nat" where
  "loadingCount msgs = length (filter loading msgs)"

text \<open>
  The immediate update of a call: the append and the clearing of the input, which
  follow each other without an \<^verbatim>\<open>await\<close> in every branch that writes at all.
\<close>

definition immediateUpdate :: "Turn \<Rightarrow> Update list" where
  "immediateUpdate turn = take 2 (updates turn)"

text \<open>
  Two calls made in the same render: both read the transcript of \<open>st\<close> at their guard,
  then the immediate update of the first lands, then that of the second.
\<close>

definition overlappingCalls ::
  "Env \<Rightarrow> string \<Rightarrow> Attachment option \<Rightarrow> Env \<Rightarrow> string \<Rightarrow> Attachment option \<Rightarrow> AppState \<Rightarrow> AppState" where
  "overlappingCalls env1 t1 a1 env2 t2 a2 st =
     applyAll (immediateUpdate (sendMessage env2 (messages st) t2 a2))
       (applyAll (immediateUpdate (sendMessage env1 (messages st) t1 a1)) st)"

section \<open>Auxiliary notions\<close>

text \<open>A function on messages that keeps every id and never turns a message to
  loading; all writes but the first of a call map such a function over the transcript.\<close>

definition calm :: "(Message \<Rightarrow> Message) \<Rightarrow> bool" where
  "calm f = (\<forall>m. msg_id (f m) = msg_id m \<and> (loading (f m) \<longrightarrow> loading m))"

fun isAppend :: "Update \<Rightarrow> bool" where
  "isAppend (AppendTurn u m) = True"
| "isAppend _ = False"


section \<open>Example inputs\<close>

definition exampleEnv :: Env where
  "exampleEnv =
     \<lparr>dateNowUser = ''1700000000000'', dateNowModel = ''1700000000001'',
      localeString = ''1/1/2026, 10:00:00 AM'', apiKey = Some ''key'',
      selectAgent = (\<lambda>_. None), generateImageUrl = (\<lambda>p. ''https://image.example/'' @ p),
      geolocation = Inl PermissionDenied,
      generateContentStream = (\<lambda>_. ([], None))\<rparr>"

definition emptyState :: AppState where
  "emptyState = \<lparr>messages = [], input = [], attachment = None\<rparr>"

definition busyState :: AppState where
  "busyState =
     \<lparr>messages = [userMessage exampleEnv ''hello'' None, placeholder exampleEnv ''Zephyr''],
      input = [], attachment = None\<rparr>"

definition keylessEnv :: Env where
  "keylessEnv = exampleEnv\<lparr>apiKey := None\<rparr>"


definition exampleAttachment :: Attachment where
  "exampleAttachment =
     \<lparr>att_data = ''QUJD'', mimeType = ''image/jpeg'', url = ''data:image/jpeg;base64,QUJD''\<rparr>"

text \<open>A transcript of one finished turn whose user message carried an image.\<close>

definition historyState :: AppState where
  "historyState =
     \<lparr>messages =
        [\<lparr>msg_id = Some ''1690000000000-user'', role = USER, msg_text = ''what is this?'',
          sources = None, msg_image = Some ''data:image/jpeg;base64,WFla'', agentName = None,
          msg_type = None, isLoading = None\<rparr>,
         \<lparr>msg_id = Some ''1690000000000-model'', role = MODEL, msg_text = ''A cat.'',
          sources = None, msg_image = None, agentName = Some ''Zephyr'',
          msg_type = None, isLoading = Some False\<rparr>],
      input = [], attachment = None\<rparr>"

text \<open>The stream delivers one fragment and then fails.\<close>

definition failingEnv :: Env where
  "failingEnv =
     exampleEnv\<lparr>generateContentStream :=
       (\<lambda>_. ([\<lparr>chunk_text = Some ''Par'', groundingChunks = None\<rparr>],
              Some (ThrownValue (Some ''network down'') ''Error: network down'')))\<rparr>"

text \<open>The request is rejected with \<^verbatim>\<open>undefined\<close> before the first chunk.\<close>

definition rejectingEnv :: Env where
  "rejectingEnv = exampleEnv\<lparr>generateContentStream := (\<lambda>_. ([], Some ThrownUndefined))\<rparr>"

text \<open>The stream delivers one fragment and then throws \<^verbatim>\<open>null\<close>.\<close>

definition interruptedEnv :: Env where
  "interruptedEnv =
     exampleEnv\<lparr>generateContentStream :=
       (\<lambda>_. ([\<lparr>chunk_text = Some ''Par'', groundingChunks = None\<rparr>], Some ThrownNull))\<rparr>"

text \<open>A second call two milliseconds after the one of \<open>exampleEnv\<close>, with a stream that
  answers.\<close>

definition laterEnv :: Env where
  "laterEnv =
     exampleEnv\<lparr>dateNowUser := ''1700000000002'', dateNowModel := ''1700000000003'',
                generateContentStream :=
                  (\<lambda>_. ([\<lparr>chunk_text = Some ''Hi.'', groundingChunks = None\<rparr>], None))\<rparr>"

text \<open>The stream delivers one chunk without text and ends normally.\<close>

definition silentEnv :: Env where
  "silentEnv =
     exampleEnv\<lparr>generateContentStream :=
       (\<lambda>_. ([\<lparr>chunk_text = None, groundingChunks = None\<rparr>], None))\<rparr>"

text \<open>The only chunk cites the same address twice.\<close>

definition duplicateEnv :: Env where
  "duplicateEnv =
     exampleEnv\<lparr>generateContentStream :=
       (\<lambda>_. ([\<lparr>chunk_text = Some ''Paris.'',
                groundingChunks =
                  Some [\<lparr>web = Some \<lparr>raw_uri = Some ''https://a.example'', raw_title = Some ''A''\<rparr>,
                         maps = None\<rparr>,
                        \<lparr>web = Some \<lparr>raw_uri = Some ''https://a.example'',
                                     raw_title = Some ''A again''\<rparr>,
                         maps = None\<rparr>]\<rparr>],
              None))\<rparr>"

section \<open>Lemmas\<close>

subsection \<open>Strings\<close>

lemma toLowerCase_image_prefix: "toLowerCase ''/image '' = ''/image ''"
  by code_simp

lemma startsWith_toLowerCase:
  assumes "startsWith s ''/image ''"
  shows "startsWith (toLowerCase s) ''/image ''"
proof -
  let ?p = "''/image ''"
  from assms have a: "take (length ?p) s = ?p" by (simp only: startsWith_def)
  have "take (length ?p) (toLowerCase s) = toLowerCase (take (length ?p) s)"
    by (simp only: toLowerCase_def take_map)
  also have "\<dots> = toLowerCase ?p" by (simp only: a)
  also have "\<dots> = ?p" by (rule toLowerCase_image_prefix)
  finally show ?thesis by (simp only: startsWith_def)
qed

subsection \<open>Updates that keep the transcript's shape\<close>

lemma calm_msg_id: "calm f \<Longrightarrow> msg_id (f m) = msg_id m"
  unfolding calm_def by blast

lemma calm_loading: "calm f \<Longrightarrow> loading (f m) \<Longrightarrow> loading m"
  unfolding calm_def by blast

lemma calm_id: "calm (\<lambda>m. m)"
  by (simp add: calm_def)

lemma calm_comp: "calm f \<Longrightarrow> calm g \<Longrightarrow> calm (\<lambda>m. g (f m))"
  unfolding calm_def by metis

lemma applyUpdate_calm:
  assumes "\<not> isAppend u"
  shows "\<exists>f. calm f \<and> messages (applyUpdate u st) = map f (messages st)"
proof (cases u)
  case (AppendTurn x y)
  with assms show ?thesis by simp
next
  case ClearInput
  then have "messages (applyUpdate u st) = map (\<lambda>m. m) (messages st)" by simp
  with calm_id show ?thesis by blast
next
  case (FillText i t)
  let ?f = "\<lambda>m. if msg_id m = Some i then m\<lparr>msg_text := t, isLoading := Some False\<rparr> else m"
  have "calm ?f" by (simp add: calm_def loading_def)
  moreover have "messages (applyUpdate u st) = map ?f (messages st)" using FillText by simp
  ultimately show ?thesis by blast
next
  case (SetSources i s)
  let ?f = "\<lambda>m. if msg_id m = Some i then m\<lparr>sources := Some s\<rparr> else m"
  have "calm ?f" by (simp add: calm_def loading_def)
  moreover have "messages (applyUpdate u st) = map ?f (messages st)" using SetSources by simp
  ultimately show ?thesis by blast
next
  case (FillRaises i)
  then have "messages (applyUpdate u st) = map (\<lambda>m. m) (messages st)" by simp
  with calm_id show ?thesis by blast
qed

lemma applyAll_Nil: "applyAll [] st = st"
  by (simp add: applyAll_def)

lemma applyAll_Cons: "applyAll (u # us) st = applyAll us (applyUpdate u st)"
  by (simp add: applyAll_def)

lemma applyAll_append: "applyAll (us @ vs) st = applyAll vs (applyAll us st)"
  by (simp add: applyAll_def)

lemma applyAll_calm:
  "\<forall>u \<in> set us. \<not> isAppend u \<Longrightarrow> \<exists>f. calm f \<and> messages (applyAll us st) = map f (messages st)"
proof (induction us arbitrary: st)
  case Nil
  have "messages (applyAll [] st) = map (\<lambda>m. m) (messages st)" by (simp add: applyAll_Nil)
  with calm_id show ?case by blast
next
  case (Cons u us)
  from Cons.prems have nu: "\<not> isAppend u" and nus: "\<forall>v \<in> set us. \<not> isAppend v" by simp_all
  from applyUpdate_calm [OF nu, of st] obtain f
    where f: "calm f" and mf: "messages (applyUpdate u st) = map f (messages st)" by blast
  from Cons.IH [OF nus, of "applyUpdate u st"] obtain g
    where g: "calm g"
      and mg: "messages (applyAll us (applyUpdate u st)) = map g (messages (applyUpdate u st))"
    by blast
  have "messages (applyAll (u # us) st) = map (\<lambda>m. g (f m)) (messages st)"
    by (simp only: applyAll_Cons mg mf map_map comp_def)
  with calm_comp [OF f g] show ?case by blast
qed

lemma calm_loadingCount: "calm f \<Longrightarrow> loadingCount (map f msgs) \<le> loadingCount msgs"
proof (induction msgs)
  case Nil
  show ?case by (simp add: loadingCount_def)
next
  case (Cons m msgs)
  from Cons have ih: "loadingCount (map f msgs) \<le> loadingCount msgs" by simp
  show ?case
  proof (cases "loading (f m)")
    case True
    with Cons.prems have "loading m" by (blast intro: calm_loading)
    with True ih show ?thesis by (simp add: loadingCount_def)
  next
    case False
    with ih show ?thesis by (simp add: loadingCount_def)
  qed
qed

lemma calm_not_busy:
  assumes "calm f" and "\<not> isBusy msgs"
  shows "\<not> isBusy (map f msgs)"
proof
  assume "isBusy (map f msgs)"
  then obtain m where m: "m \<in> set msgs" "loading (f m)"
    unfolding isBusy_def list_ex_iff by fastforce
  from assms(1) m(2) have "loading m" by (rule calm_loading)
  with m(1) have "isBusy msgs" unfolding isBusy_def list_ex_iff by blast
  with assms(2) show False by simp
qed

lemma not_busy_loadingCount: "\<not> isBusy msgs \<Longrightarrow> loadingCount msgs = 0"
  by (simp add: isBusy_def list_ex_iff loadingCount_def filter_empty_conv)

subsection \<open>The writes of one call\<close>

lemma streamLoop_no_append: "\<forall>u \<in> set (streamLoop i ft acc chunks). \<not> isAppend u"
  by (induction chunks arbitrary: ft acc) (auto simp: Let_def)

lemma catchUpdate_no_append: "\<not> isAppend (catchUpdate i e)"
  by (cases e) (simp_all add: catchUpdate_def)

lemma tryBlock_no_append: "\<forall>u \<in> set (updates (tryBlock env msgs t a ag n)). \<not> isAppend u"
  using streamLoop_no_append catchUpdate_no_append
  by (auto simp: tryBlock_def Let_def split: prod.splits option.splits)

lemma created_eq:
  "created env t a = [AppendTurn (userMessage env t a) (placeholder env (selectedName env t)), ClearInput]"
  by (simp add: created_def)

lemma answer_updates:
  "updates (answer env t a x) =
     AppendTurn (userMessage env t a) (placeholder env (selectedName env t))
     # [ClearInput, FillText (placeholderId env) x]"
  by (simp add: answer_def created_def)

lemma fromApiKey_shape:
  "\<exists>us. updates (fromApiKey env msgs t a) =
          AppendTurn (userMessage env t a) (placeholder env (selectedName env t)) # us
        \<and> (\<forall>u \<in> set us. \<not> isAppend u)"
proof (cases "truthy (apiKey env)")
  case False
  then show ?thesis by (simp add: fromApiKey_def answer_updates)
next
  case True
  let ?t = "tryBlock env msgs t a (selectAgent env t) (selectedName env t)"
  from True have "updates (fromApiKey env msgs t a) =
      AppendTurn (userMessage env t a) (placeholder env (selectedName env t))
      # (ClearInput # updates ?t)"
    by (simp add: fromApiKey_def Let_def created_def)
  moreover have "\<forall>u \<in> set (ClearInput # updates ?t). \<not> isAppend u"
    using tryBlock_no_append [of env msgs t a] by simp
  ultimately show ?thesis by blast
qed

lemma sendMessage_shape:
  "updates (sendMessage env msgs t a) = [] \<or>
   (\<not> rejected msgs t a \<and>
    (\<exists>m us. updates (sendMessage env msgs t a) = AppendTurn (userMessage env t a) m # us
            \<and> (\<forall>u \<in> set us. \<not> isAppend u)))"
proof (cases "rejected msgs t a")
  case True
  then show ?thesis by (simp add: sendMessage_def noTurn_def)
next
  case nr: False
  show ?thesis
  proof (cases "imageCommand t")
    case True
    with nr show ?thesis by (simp add: sendMessage_def)
  next
    case ni: False
    show ?thesis
    proof (cases "timeAnswer t a \<or> creatorAnswer t a")
      case True
      with nr ni show ?thesis by (auto simp: sendMessage_def answer_updates)
    next
      case False
      with nr ni have "sendMessage env msgs t a = fromApiKey env msgs t a"
        by (simp add: sendMessage_def)
      with nr fromApiKey_shape [of env msgs t a] show ?thesis by auto
    qed
  qed
qed

lemma tryBlock_requests:
  "requests (tryBlock env msgs t a ag n) = [buildRequest env msgs t a ag n]"
  by (simp add: tryBlock_def Let_def case_prod_beta)

lemma tryBlock_geoCalls:
  "geoCalls (tryBlock env msgs t a ag n) =
     (if mapQueryRegex (toLowerCase (trim t)) then [10000] else [])"
  by (simp add: tryBlock_def Let_def case_prod_beta)

lemma tryBlock_updates:
  "updates (tryBlock env msgs t a ag n) =
     streamLoop (placeholderId env) [] []
       (fst (generateContentStream env (buildRequest env msgs t a ag n)))
     @ (case snd (generateContentStream env (buildRequest env msgs t a ag n)) of
          None \<Rightarrow> []
        | Some error \<Rightarrow> [catchUpdate (placeholderId env) error])"
  by (simp add: tryBlock_def Let_def case_prod_beta)

lemma sendMessage_service:
  assumes "reachesService env msgs t a"
  shows "sendMessage env msgs t a =
           (tryBlock env msgs t a (selectAgent env t) (selectedName env t))
             \<lparr>updates := created env t a
                          @ updates (tryBlock env msgs t a (selectAgent env t) (selectedName env t)),
              agentCalls := [t]\<rparr>"
  using assms by (simp add: reachesService_def sendMessage_def fromApiKey_def Let_def)

lemma sendMessage_started:
  assumes nr: "\<not> rejected msgs t a"
  shows "\<exists>m us. updates (sendMessage env msgs t a) = AppendTurn (userMessage env t a) m # us"
proof (cases "imageCommand t")
  case True
  with nr show ?thesis by (simp add: sendMessage_def)
next
  case ni: False
  show ?thesis
  proof (cases "timeAnswer t a")
    case True
    with nr ni show ?thesis by (simp add: sendMessage_def answer_updates)
  next
    case nt: False
    show ?thesis
    proof (cases "creatorAnswer t a")
      case True
      with nr ni nt show ?thesis by (simp add: sendMessage_def answer_updates)
    next
      case False
      with nr ni nt have "sendMessage env msgs t a = fromApiKey env msgs t a"
        by (simp add: sendMessage_def)
      with fromApiKey_shape [of env msgs t a] show ?thesis by auto
    qed
  qed
qed

lemma messages_created:
  "messages (applyAll (created env t a) st) =
     messages st @ [userMessage env t a, placeholder env (selectedName env t)]"
  by (simp add: created_def applyAll_Cons applyAll_Nil)

lemma userMessage_not_loading: "\<not> loading (userMessage env t a)"
  by (simp add: loading_def userMessage_def)

lemma placeholder_id: "msg_id (placeholder env n) = Some (placeholderId env)"
  by (simp add: placeholder_def)

text \<open>Filling the placeholder that ends the transcript.\<close>

lemma fill_last:
  assumes "messages st = msgs @ [p]" and "msg_id p = Some i"
  shows "last (messages (applyUpdate (FillText i x) st)) = p\<lparr>msg_text := x, isLoading := Some False\<rparr>"
  using assms by (simp add: last_map)

lemma fill_not_busy:
  assumes "messages st = msgs @ [p]" and "msg_id p = Some i" and "\<not> isBusy msgs"
  shows "\<not> isBusy (messages (applyUpdate (FillText i x) st))"
  using assms by (auto simp: isBusy_def list_ex_iff loading_def)

lemma answer_last:
  "last (messages (applyAll (updates (answer env t a x)) st)) =
     (placeholder env (selectedName env t))\<lparr>msg_text := x, isLoading := Some False\<rparr>"
proof -
  let ?st1 = "applyAll (created env t a) st"
  have m1: "messages ?st1 = (messages st @ [userMessage env t a]) @ [placeholder env (selectedName env t)]"
    by (simp add: messages_created)
  have "applyAll (updates (answer env t a x)) st = applyUpdate (FillText (placeholderId env) x) ?st1"
    by (simp add: answer_def applyAll_append applyAll_Cons applyAll_Nil)
  with fill_last [OF m1 placeholder_id] show ?thesis by simp
qed

lemma answer_not_busy:
  assumes "\<not> isBusy (messages st)"
  shows "\<not> isBusy (messages (applyAll (updates (answer env t a x)) st))"
proof -
  let ?st1 = "applyAll (created env t a) st"
  have m1: "messages ?st1 = (messages st @ [userMessage env t a]) @ [placeholder env (selectedName env t)]"
    by (simp add: messages_created)
  have nb: "\<not> isBusy (messages st @ [userMessage env t a])"
    using assms userMessage_not_loading [of env t a] by (simp add: isBusy_def list_ex_iff)
  have "applyAll (updates (answer env t a x)) st = applyUpdate (FillText (placeholderId env) x) ?st1"
    by (simp add: answer_def applyAll_append applyAll_Cons applyAll_Nil)
  with fill_not_busy [OF m1 placeholder_id nb] show ?thesis by simp
qed

lemma stream_then_fill:
  assumes idle: "\<not> isBusy (messages st)"
  shows "\<exists>q. msg_id q = Some (placeholderId env)
           \<and> last (messages (applyAll (created env t a
                                        @ streamLoop (placeholderId env) ft acc chunks
                                        @ [FillText (placeholderId env) x]) st))
               = q\<lparr>msg_text := x, isLoading := Some False\<rparr>
           \<and> \<not> isBusy (messages (applyAll (created env t a
                                        @ streamLoop (placeholderId env) ft acc chunks
                                        @ [FillText (placeholderId env) x]) st))"
proof -
  let ?u = "userMessage env t a" and ?p = "placeholder env (selectedName env t)"
  let ?st1 = "applyAll (created env t a) st"
  let ?st2 = "applyAll (streamLoop (placeholderId env) ft acc chunks) ?st1"
  from applyAll_calm [OF streamLoop_no_append, of "placeholderId env" ft acc chunks ?st1]
  obtain f where f: "calm f" and mf: "messages ?st2 = map f (messages ?st1)" by blast
  have m2: "messages ?st2 = map f (messages st @ [?u]) @ [f ?p]"
    by (simp add: mf messages_created)
  have idf: "msg_id (f ?p) = Some (placeholderId env)"
    by (simp add: calm_msg_id [OF f] placeholder_id)
  have "\<not> isBusy (messages st @ [?u])"
    using idle userMessage_not_loading [of env t a] by (simp add: isBusy_def list_ex_iff)
  with f have nb: "\<not> isBusy (map f (messages st @ [?u]))" by (rule calm_not_busy)
  have fin: "applyAll (created env t a @ streamLoop (placeholderId env) ft acc chunks
                       @ [FillText (placeholderId env) x]) st
             = applyUpdate (FillText (placeholderId env) x) ?st2"
    by (simp add: applyAll_append applyAll_Cons applyAll_Nil)
  from fill_last [OF m2 idf, of x] fill_not_busy [OF m2 idf nb, of x] idf
  show ?thesis unfolding fin by blast
qed

subsection \<open>The request\<close>

lemma buildRequest_tools:
  "tools (buildRequest env msgs t a ag n) =
     GoogleSearch # (if mapQueryRegex (toLowerCase (trim t)) then [GoogleMaps] else [])"
  by (simp add: buildRequest_def Let_def)

lemma buildRequest_toolConfig:
  "toolConfig (buildRequest env msgs t a ag n) =
     (if mapQueryRegex (toLowerCase (trim t))
      then (case geolocation env of Inr pos \<Rightarrow> Some pos | Inl _ \<Rightarrow> None) else None)"
  by (simp add: buildRequest_def Let_def)

lemma buildRequest_contents:
  "contents (buildRequest env msgs t a ag n) =
     historyForAPI msgs @ [\<lparr>content_role = USER, parts = currentParts t a\<rparr>]"
  by (simp add: buildRequest_def Let_def)

lemma buildRequest_geolocation_failed:
  "buildRequest (env\<lparr>geolocation := Inl f\<rparr>) msgs t a ag n =
     (buildRequest env msgs t a ag n)\<lparr>toolConfig := None\<rparr>"
  by (simp add: buildRequest_def Let_def)

lemma historyForAPI_text_only:
  "\<forall>c \<in> set (historyForAPI msgs). \<exists>m \<in> set msgs. c = \<lparr>content_role = role m, parts = [TextPart (msg_text m)]\<rparr>"
  by (auto simp: historyForAPI_def)

lemma regexTest_mono:
  "set alts \<subseteq> set alts' \<Longrightarrow> regexTest alts p s \<Longrightarrow> regexTest alts' p s"
proof (induction s arbitrary: p)
  case Nil
  then show ?case by (auto simp: list_ex_iff)
next
  case (Cons c cs)
  from Cons.prems(2) consider "list_ex (\<lambda>w. matchHere w p (c # cs)) alts"
    | "regexTest alts (Some c) cs" by auto
  then show ?case
  proof cases
    case 1
    with Cons.prems(1) have "list_ex (\<lambda>w. matchHere w p (c # cs)) alts'"
      unfolding list_ex_iff by blast
    then show ?thesis by simp
  next
    case 2
    with Cons.IH [OF Cons.prems(1)] have "regexTest alts' (Some c) cs" by blast
    then show ?thesis by simp
  qed
qed

lemma specMapQueryPattern_imp: "specMapQueryPattern s \<Longrightarrow> mapQueryRegex s"
  unfolding specMapQueryPattern_def mapQueryRegex_def
  by (rule regexTest_mono [rotated]) auto

subsection \<open>Merging sources\<close>

lemma mergeSources_distinct:
  assumes "distinct (map uri acc)" and "distinct (map uri srcs)"
  shows "distinct (map uri (mergeSources acc srcs))"
proof -
  let ?new = "filter (\<lambda>s. \<not> list_ex (\<lambda>exist. uri exist = uri s) acc) srcs"
  from assms(2) have "distinct (map uri ?new)" by (rule distinct_map_filter)
  moreover have "set (map uri acc) \<inter> set (map uri ?new) = {}"
    by (auto simp: list_ex_iff)
  ultimately show ?thesis using assms(1) by (simp add: mergeSources_def)
qed

subsection \<open>A stream that ends with a thrown value\<close>

text \<open>
  When the value thrown has a detail, the last write of the turn replaces the
  placeholder's text by \<^verbatim>\<open>Connection Error: \<close> and the detail, whatever had been
  streamed, and sets loading to false; one request was sent; no message is loading
  afterwards, and a later call made on that state with a text or an image starts with
  its own append.
\<close>

lemma thrown_value_replaces_text:
  assumes rs: "reachesService env (messages st) t a"
    and err: "generateContentStream env
                (buildRequest env (messages st) t a (selectAgent env t) (selectedName env t))
              = (chunks, Some error)"
    and det: "errorDetail error = Some detail"
  shows "requests (sendMessage env (messages st) t a) =
           [buildRequest env (messages st) t a (selectAgent env t) (selectedName env t)]
       \<and> updates (sendMessage env (messages st) t a) =
           created env t a @ streamLoop (placeholderId env) [] [] chunks
           @ [FillText (placeholderId env) (''Connection Error: '' @ detail)]
       \<and> msg_id (last (messages (afterTurn env st t a))) = Some (placeholderId env)
       \<and> msg_text (last (messages (afterTurn env st t a))) = ''Connection Error: '' @ detail
       \<and> isLoading (last (messages (afterTurn env st t a))) = Some False
       \<and> \<not> isBusy (messages (afterTurn env st t a))
       \<and> (\<forall>env' t' a'. trim t' \<noteq> [] \<or> a' \<noteq> None \<longrightarrow>
             (\<exists>m us. updates (sendMessage env' (messages (afterTurn env st t a)) t' a') =
                       AppendTurn (userMessage env' t' a') m # us))"
proof -
  let ?x = "''Connection Error: '' @ detail"
  let ?r = "buildRequest env (messages st) t a (selectAgent env t) (selectedName env t)"
  from rs have idle: "\<not> isBusy (messages st)" by (simp add: reachesService_def rejected_def)
  have req: "requests (sendMessage env (messages st) t a) = [?r]"
    by (simp add: sendMessage_service [OF rs] tryBlock_requests)
  have upd: "updates (sendMessage env (messages st) t a) =
               created env t a @ streamLoop (placeholderId env) [] [] chunks
               @ [FillText (placeholderId env) ?x]"
    by (simp add: sendMessage_service [OF rs] tryBlock_updates err catchUpdate_def det)
  from stream_then_fill [OF idle, of env t a "[]" "[]" chunks ?x] obtain q
    where q: "msg_id q = Some (placeholderId env)"
      and l: "last (messages (afterTurn env st t a)) = q\<lparr>msg_text := ?x, isLoading := Some False\<rparr>"
      and nb: "\<not> isBusy (messages (afterTurn env st t a))"
    unfolding afterTurn_def upd by blast
  have fresh: "\<forall>env' t' a'. trim t' \<noteq> [] \<or> a' \<noteq> None \<longrightarrow>
             (\<exists>m us. updates (sendMessage env' (messages (afterTurn env st t a)) t' a') =
                       AppendTurn (userMessage env' t' a') m # us)"
  proof (intro allI impI)
    fix env' :: Env and t' :: string and a' :: "Attachment option"
    assume "trim t' \<noteq> [] \<or> a' \<noteq> None"
    with nb have "\<not> rejected (messages (afterTurn env st t a)) t' a'"
      by (auto simp: rejected_def)
    then show "\<exists>m us. updates (sendMessage env' (messages (afterTurn env st t a)) t' a') =
                       AppendTurn (userMessage env' t' a') m # us"
      by (rule sendMessage_started)
  qed
  from q l have "msg_id (last (messages (afterTurn env st t a))) = Some (placeholderId env)"
    and "msg_text (last (messages (afterTurn env st t a))) = ?x"
    and "isLoading (last (messages (afterTurn env st t a))) = Some False"
    by simp_all
  with req upd nb fresh show ?thesis by blast
qed

text \<open>One fragment, then an error object with the message \<^verbatim>\<open>network down\<close>.\<close>

lemma thrown_value_example:
  "msg_text (last (messages (afterTurn failingEnv emptyState ''capital of France?'' None))) =
     ''Connection Error: network down''
   \<and> isLoading (last (messages (afterTurn failingEnv emptyState ''capital of France?'' None))) =
       Some False"
proof -
  have h1: "reachesService failingEnv (messages emptyState) ''capital of France?'' None"
    by code_simp
  have h2: "generateContentStream failingEnv
        (buildRequest failingEnv (messages emptyState) ''capital of France?'' None
           (selectAgent failingEnv ''capital of France?'')
           (selectedName failingEnv ''capital of France?''))
      = ([\<lparr>chunk_text = Some ''Par'', groundingChunks = None\<rparr>],
         Some (ThrownValue (Some ''network down'') ''Error: network down''))"
    by (simp add: failingEnv_def)
  have h3: "errorDetail (ThrownValue (Some ''network down'') ''Error: network down'')
            = Some ''network down''"
    by (simp add: truthy_def)
  from thrown_value_replaces_text [OF h1 h2 h3] show ?thesis by simp
qed

subsection \<open>Calls that do not overlap\<close>

lemma busy_call_is_no_op:
  assumes "isBusy msgs"
  shows "sendMessage env msgs t a = noTurn"
  using assms by (simp add: sendMessage_def rejected_def)

text \<open>A call that reads the state it writes to, run to its end before the next one,
  keeps the number of loading messages at one at most.\<close>

lemma afterTurn_loadingCount:
  assumes "loadingCount (messages st) \<le> 1"
  shows "loadingCount (messages (afterTurn env st t a)) \<le> 1"
proof -
  from sendMessage_shape [of env "messages st" t a]
  consider "updates (sendMessage env (messages st) t a) = []"
    | m us where "\<not> rejected (messages st) t a"
        "updates (sendMessage env (messages st) t a) = AppendTurn (userMessage env t a) m # us"
        "\<forall>u \<in> set us. \<not> isAppend u"
    by blast
  then show ?thesis
  proof cases
    case 1
    with assms show ?thesis by (simp add: afterTurn_def applyAll_Nil)
  next
    case 2
    let ?st1 = "applyUpdate (AppendTurn (userMessage env t a) m) st"
    from 2(1) have z: "loadingCount (messages st) = 0"
      by (simp add: rejected_def not_busy_loadingCount)
    from applyAll_calm [OF 2(3), of ?st1] obtain f
      where f: "calm f" and mf: "messages (applyAll us ?st1) = map f (messages ?st1)" by blast
    have "loadingCount (messages ?st1) \<le> 1"
      using z userMessage_not_loading [of env t a] by (simp add: loadingCount_def)
    with calm_loadingCount [OF f, of "messages ?st1"] mf
    have "loadingCount (messages (applyAll us ?st1)) \<le> 1" by simp
    then show ?thesis by (simp add: afterTurn_def 2(2) applyAll_Cons)
  qed
qed

section \<open>The claims\<close>

text \<open>
  Claim C1. The final source list of a turn holds no two entries with the same URI,
  also when one chunk carries two entries sharing a URI. The loop removes from a
  chunk's entries only those whose URI is already accumulated (\<open>mergeSources\<close>); two
  entries of one chunk with the same new URI are both kept. With the stream of
  \<open>duplicateEnv\<close>, whose only chunk cites \<^verbatim>\<open>https://a.example\<close> twice, the
  placeholder ends with both entries. (Across chunks, and for a chunk whose own entries
  differ in their URIs, \<open>mergeSources_distinct\<close> gives the stated uniqueness.)
\<close>

theorem C1_duplicate_uri_in_one_chunk:
  "sources (last (messages (afterTurn duplicateEnv emptyState ''capital of France?'' None))) =
     Some [\<lparr>title = ''A'', uri = ''https://a.example''\<rparr>,
           \<lparr>title = ''A again'', uri = ''https://a.example''\<rparr>]
   \<and> \<not> distinct (map uri [\<lparr>title = ''A'', uri = ''https://a.example''\<rparr>,
                          \<lparr>title = ''A again'', uri = ''https://a.example''\<rparr>])"
  by code_simp

text \<open>
  Claim C2. When the stream ends, normally or with an error, the placeholder is in a
  terminal state with loading = false. The loop leaves loading only on a chunk with a
  non-empty text, and nothing is written after the loop: with the stream of
  \<open>silentEnv\<close>, which delivers one chunk without text and ends normally, the turn
  reaches the service and the placeholder is still loading, with empty text, after the
  last write; the transcript stays busy and the next submission is rejected.
\<close>

theorem C2_silent_stream_stays_loading:
  "generateContentStream silentEnv
     (buildRequest silentEnv (messages emptyState) ''hello'' None
        (selectAgent silentEnv ''hello'') (selectedName silentEnv ''hello''))
     = ([\<lparr>chunk_text = None, groundingChunks = None\<rparr>], None)
   \<and> reachesService silentEnv (messages emptyState) ''hello'' None
   \<and> isLoading (last (messages (afterTurn silentEnv emptyState ''hello'' None))) = Some True
   \<and> msg_text (last (messages (afterTurn silentEnv emptyState ''hello'' None))) = []
   \<and> isBusy (messages (afterTurn silentEnv emptyState ''hello'' None))
   \<and> updates (sendMessage silentEnv (messages (afterTurn silentEnv emptyState ''hello'' None))
                 ''hello again'' None) = []"
  by code_simp

text \<open>
  Claim C3. For every error of the network call after the placeholder was created, the
  placeholder's text is replaced by a connection-error message and loading is set to
  false. For a thrown value with a detail it is (\<open>thrown_value_replaces_text\<close>). For
  \<^verbatim>\<open>undefined\<close> and \<^verbatim>\<open>null\<close> the updater of the \<^verbatim>\<open>catch\<close> raises a TypeError on
  \<^verbatim>\<open>error.message\<close> and writes nothing: a request rejected with \<^verbatim>\<open>undefined\<close> leaves
  the placeholder loading with empty text, and \<^verbatim>\<open>null\<close> thrown after the fragment
  \<^verbatim>\<open>Par\<close> leaves that fragment as the text.
\<close>

theorem C3_thrown_nullish_writes_no_error_text:
  "reachesService rejectingEnv (messages emptyState) ''capital of France?'' None
   \<and> generateContentStream rejectingEnv
        (buildRequest rejectingEnv (messages emptyState) ''capital of France?'' None
           (selectAgent rejectingEnv ''capital of France?'')
           (selectedName rejectingEnv ''capital of France?''))
      = ([], Some ThrownUndefined)
   \<and> updates (sendMessage rejectingEnv (messages emptyState) ''capital of France?'' None) =
       created rejectingEnv ''capital of France?'' None
       @ [FillRaises (placeholderId rejectingEnv)]
   \<and> raisesTypeError (FillRaises (placeholderId rejectingEnv))
        (applyAll (created rejectingEnv ''capital of France?'' None) emptyState)
   \<and> msg_text (last (messages (afterTurn rejectingEnv emptyState ''capital of France?'' None))) = []
   \<and> isLoading (last (messages (afterTurn rejectingEnv emptyState ''capital of France?'' None))) =
       Some True
   \<and> reachesService interruptedEnv (messages emptyState) ''capital of France?'' None
   \<and> updates (sendMessage interruptedEnv (messages emptyState) ''capital of France?'' None) =
       created interruptedEnv ''capital of France?'' None
       @ [FillText (placeholderId interruptedEnv) ''Par'', FillRaises (placeholderId interruptedEnv)]
   \<and> msg_text (last (messages (afterTurn interruptedEnv emptyState ''capital of France?'' None))) =
       ''Par''"
  by code_simp

text \<open>
  Claim C4, as stated for every input: on a transcript with a loading message the call
  returns at the guard, and \<^verbatim>\<open>/image cat\<close> appends nothing.
\<close>

theorem C4_image_command_counterexample:
  "startsWith (trim ''/image cat'') ''/image ''
   \<and> substring (trim ''/image cat'') 7 \<noteq> []
   \<and> updates (sendMessage exampleEnv (messages busyState) ''/image cat'' None) = []
   \<and> afterTurn exampleEnv busyState ''/image cat'' None = busyState"
  by code_simp

text \<open>
  Claim C4, amended. When no message of the transcript is loading and the trimmed text
  begins with \<^verbatim>\<open>/image \<close> followed by a non-empty prompt, \<^verbatim>\<open>sendMessage\<close> does not
  call the persona classifier, reads no geolocation and sends no request; it writes
  exactly one append, of the user message and of a model message that is not loading,
  of type image, whose text is the generated image URL of the prompt and whose agent
  name is \<^verbatim>\<open>Creative Agent\<close>, clears the input, and returns.
\<close>

theorem C4_image_command_when_idle:
  assumes idle: "\<not> isBusy (messages st)"
    and pre: "startsWith (trim t) ''/image ''"
    and prompt: "substring (trim t) 7 \<noteq> []"
  shows "agentCalls (sendMessage env (messages st) t a) = []
       \<and> geoCalls (sendMessage env (messages st) t a) = []
       \<and> requests (sendMessage env (messages st) t a) = []
       \<and> updates (sendMessage env (messages st) t a) =
           [AppendTurn (userMessage env t a) (imageMessage env (substring (trim t) 7)), ClearInput]
       \<and> messages (afterTurn env st t a) =
           messages st @ [userMessage env t a, imageMessage env (substring (trim t) 7)]
       \<and> role (userMessage env t a) = USER
       \<and> msg_text (userMessage env t a) = trim t
       \<and> role (imageMessage env (substring (trim t) 7)) = MODEL
       \<and> msg_type (imageMessage env (substring (trim t) 7)) = Some ImageType
       \<and> msg_text (imageMessage env (substring (trim t) 7)) =
           generateImageUrl env (substring (trim t) 7)
       \<and> agentName (imageMessage env (substring (trim t) 7)) = Some ''Creative Agent''
       \<and> \<not> loading (imageMessage env (substring (trim t) 7))"
proof -
  from prompt have "trim t \<noteq> []" by (auto simp: substring_def)
  with idle have nr: "\<not> rejected (messages st) t a" by (simp add: rejected_def)
  from pre prompt have ic: "imageCommand t"
    by (simp add: imageCommand_def startsWith_toLowerCase)
  from nr ic have T: "sendMessage env (messages st) t a =
      \<lparr>updates = [AppendTurn (userMessage env t a) (imageMessage env (substring (trim t) 7)),
                  ClearInput],
       agentCalls = [], geoCalls = [], requests = []\<rparr>"
    by (simp add: sendMessage_def)
  have "messages (afterTurn env st t a) =
          messages st @ [userMessage env t a, imageMessage env (substring (trim t) 7)]"
    by (simp add: afterTurn_def T applyAll_Cons applyAll_Nil)
  moreover have "role (userMessage env t a) = USER" "msg_text (userMessage env t a) = trim t"
    by (simp_all add: userMessage_def)
  moreover have "role (imageMessage env (substring (trim t) 7)) = MODEL"
    "msg_type (imageMessage env (substring (trim t) 7)) = Some ImageType"
    "msg_text (imageMessage env (substring (trim t) 7)) = generateImageUrl env (substring (trim t) 7)"
    "agentName (imageMessage env (substring (trim t) 7)) = Some ''Creative Agent''"
    "\<not> loading (imageMessage env (substring (trim t) 7))"
    by (simp_all add: imageMessage_def loading_def)
  ultimately show ?thesis by (simp add: T)
qed

text \<open>\<^verbatim>\<open>/image cat\<close> on the empty transcript.\<close>

theorem C4_image_command_witness:
  "\<not> isBusy (messages emptyState)
   \<and> startsWith (trim ''/image cat'') ''/image ''
   \<and> substring (trim ''/image cat'') 7 \<noteq> []
   \<and> agentCalls (sendMessage exampleEnv (messages emptyState) ''/image cat'' None) = []
   \<and> requests (sendMessage exampleEnv (messages emptyState) ''/image cat'' None) = []
   \<and> messages (afterTurn exampleEnv emptyState ''/image cat'' None) =
       messages emptyState
       @ [userMessage exampleEnv ''/image cat'' None,
          imageMessage exampleEnv (substring (trim ''/image cat'') 7)]
   \<and> msg_text (imageMessage exampleEnv (substring (trim ''/image cat'') 7)) =
       ''https://image.example/cat''"
proof -
  have h1: "\<not> isBusy (messages emptyState)" by code_simp
  have h2: "startsWith (trim ''/image cat'') ''/image ''" by code_simp
  have h3: "substring (trim ''/image cat'') 7 \<noteq> []" by code_simp
  have h4: "generateImageUrl exampleEnv (substring (trim ''/image cat'') 7) = ''https://image.example/cat''"
    by code_simp
  from C4_image_command_when_idle [OF h1 h2 h3, of exampleEnv None] h1 h2 h3 h4
  show ?thesis by simp
qed

text \<open>
  Claim C5. In a turn that passed the guard and is not an image command: with no image
  attached and a match of the time/date pattern, the placeholder is filled with the
  current date and time, also when the creator pattern matches too; with no image
  attached, no match of the time/date pattern, a match of the creator pattern and no
  occurrence of \<^verbatim>\<open>quantum coders\<close>, it is filled with the attribution. Either way
  the placeholder's loading is set to false, that write is the last one, and no request
  is sent and no geolocation read. With an image attached, or with neither rule
  matching (the creator rule not matching when the text names \<^verbatim>\<open>quantum coders\<close>),
  the turn goes on to the API key check.
\<close>

theorem C5_hardcoded_answers:
  assumes nr: "\<not> rejected (messages st) t a" and ni: "\<not> imageCommand t"
  shows
    "(a = None \<and> timeDateRegex (toLowerCase (trim t)) \<longrightarrow>
        updates (sendMessage env (messages st) t a) =
          created env t a
          @ [FillText (placeholderId env) (''The current date and time is: '' @ localeString env)]
        \<and> requests (sendMessage env (messages st) t a) = []
        \<and> geoCalls (sendMessage env (messages st) t a) = []
        \<and> last (messages (afterTurn env st t a)) =
            (placeholder env (selectedName env t))
              \<lparr>msg_text := ''The current date and time is: '' @ localeString env,
               isLoading := Some False\<rparr>)
   \<and> (a = None \<and> \<not> timeDateRegex (toLowerCase (trim t))
        \<and> creatorRegex (toLowerCase (trim t))
        \<and> \<not> includesStr (toLowerCase (trim t)) ''quantum coders'' \<longrightarrow>
        updates (sendMessage env (messages st) t a) =
          created env t a
          @ [FillText (placeholderId env) ''I was created by **Mohammad Rayyan Ali**.'']
        \<and> requests (sendMessage env (messages st) t a) = []
        \<and> geoCalls (sendMessage env (messages st) t a) = []
        \<and> last (messages (afterTurn env st t a)) =
            (placeholder env (selectedName env t))
              \<lparr>msg_text := ''I was created by **Mohammad Rayyan Ali**.'',
               isLoading := Some False\<rparr>)
   \<and> (a \<noteq> None
        \<or> (\<not> timeDateRegex (toLowerCase (trim t))
            \<and> (\<not> creatorRegex (toLowerCase (trim t))
                \<or> includesStr (toLowerCase (trim t)) ''quantum coders'')) \<longrightarrow>
        sendMessage env (messages st) t a = fromApiKey env (messages st) t a)"
proof (intro conjI impI)
  let ?x = "''The current date and time is: '' @ localeString env"
  assume "a = None \<and> timeDateRegex (toLowerCase (trim t))"
  then have "timeAnswer t a" by (simp add: timeAnswer_def)
  with nr ni have T: "sendMessage env (messages st) t a = answer env t a ?x"
    by (simp add: sendMessage_def)
  show "updates (sendMessage env (messages st) t a) = created env t a @ [FillText (placeholderId env) ?x]"
    and "requests (sendMessage env (messages st) t a) = []"
    and "geoCalls (sendMessage env (messages st) t a) = []"
    by (simp_all add: T answer_def)
  show "last (messages (afterTurn env st t a)) =
          (placeholder env (selectedName env t))\<lparr>msg_text := ?x, isLoading := Some False\<rparr>"
    unfolding afterTurn_def T by (rule answer_last)
next
  let ?x = "''I was created by **Mohammad Rayyan Ali**.''"
  assume "a = None \<and> \<not> timeDateRegex (toLowerCase (trim t))
        \<and> creatorRegex (toLowerCase (trim t))
        \<and> \<not> includesStr (toLowerCase (trim t)) ''quantum coders''"
  then have "\<not> timeAnswer t a" and "creatorAnswer t a"
    by (simp_all add: timeAnswer_def creatorAnswer_def)
  with nr ni have T: "sendMessage env (messages st) t a = answer env t a ?x"
    by (simp add: sendMessage_def)
  show "updates (sendMessage env (messages st) t a) = created env t a @ [FillText (placeholderId env) ?x]"
    and "requests (sendMessage env (messages st) t a) = []"
    and "geoCalls (sendMessage env (messages st) t a) = []"
    by (simp_all add: T answer_def)
  show "last (messages (afterTurn env st t a)) =
          (placeholder env (selectedName env t))\<lparr>msg_text := ?x, isLoading := Some False\<rparr>"
    unfolding afterTurn_def T by (rule answer_last)
next
  assume "a \<noteq> None
        \<or> (\<not> timeDateRegex (toLowerCase (trim t))
            \<and> (\<not> creatorRegex (toLowerCase (trim t))
                \<or> includesStr (toLowerCase (trim t)) ''quantum coders''))"
  then have "\<not> timeAnswer t a" and "\<not> creatorAnswer t a"
    by (auto simp: timeAnswer_def creatorAnswer_def)
  with nr ni show "sendMessage env (messages st) t a = fromApiKey env (messages st) t a"
    by (simp add: sendMessage_def)
qed

text \<open>Four submissions on the empty transcript: both patterns match; only the creator
  pattern matches; the time pattern matches with an image attached; the creator pattern
  matches and the text names the organization.\<close>

theorem C5_hardcoded_answers_witness:
  "\<not> rejected (messages emptyState) ''What time is it, and who made you?'' None
   \<and> \<not> imageCommand ''What time is it, and who made you?''
   \<and> timeDateRegex (toLowerCase (trim ''What time is it, and who made you?''))
   \<and> creatorRegex (toLowerCase (trim ''What time is it, and who made you?''))
   \<and> last (messages (afterTurn exampleEnv emptyState ''What time is it, and who made you?'' None)) =
       (placeholder exampleEnv (selectedName exampleEnv ''What time is it, and who made you?''))
         \<lparr>msg_text := ''The current date and time is: '' @ localeString exampleEnv,
          isLoading := Some False\<rparr>
   \<and> requests (sendMessage exampleEnv (messages emptyState) ''What time is it, and who made you?'' None) = []
   \<and> \<not> rejected (messages emptyState) ''Who made you?'' None
   \<and> \<not> imageCommand ''Who made you?''
   \<and> \<not> timeDateRegex (toLowerCase (trim ''Who made you?''))
   \<and> creatorRegex (toLowerCase (trim ''Who made you?''))
   \<and> \<not> includesStr (toLowerCase (trim ''Who made you?'')) ''quantum coders''
   \<and> last (messages (afterTurn exampleEnv emptyState ''Who made you?'' None)) =
       (placeholder exampleEnv (selectedName exampleEnv ''Who made you?''))
         \<lparr>msg_text := ''I was created by **Mohammad Rayyan Ali**.'', isLoading := Some False\<rparr>
   \<and> requests (sendMessage exampleEnv (messages emptyState) ''Who made you?'' None) = []
   \<and> \<not> rejected (messages emptyState) ''What time is it?'' (Some exampleAttachment)
   \<and> \<not> imageCommand ''What time is it?''
   \<and> sendMessage exampleEnv (messages emptyState) ''What time is it?'' (Some exampleAttachment) =
       fromApiKey exampleEnv (messages emptyState) ''What time is it?'' (Some exampleAttachment)
   \<and> \<not> rejected (messages emptyState) ''Who made you, Quantum Coders?'' None
   \<and> \<not> imageCommand ''Who made you, Quantum Coders?''
   \<and> \<not> timeDateRegex (toLowerCase (trim ''Who made you, Quantum Coders?''))
   \<and> includesStr (toLowerCase (trim ''Who made you, Quantum Coders?'')) ''quantum coders''
   \<and> sendMessage exampleEnv (messages emptyState) ''Who made you, Quantum Coders?'' None =
       fromApiKey exampleEnv (messages emptyState) ''Who made you, Quantum Coders?'' None"
proof -
  let ?t1 = "''What time is it, and who made you?''"
  let ?t2 = "''Who made you?''"
  let ?t3 = "''What time is it?''"
  let ?t4 = "''Who made you, Quantum Coders?''"
  have a1: "\<not> rejected (messages emptyState) ?t1 None" by code_simp
  have a2: "\<not> imageCommand ?t1" by code_simp
  have a3: "timeDateRegex (toLowerCase (trim ?t1))" by code_simp
  have a4: "creatorRegex (toLowerCase (trim ?t1))" by code_simp
  have b1: "\<not> rejected (messages emptyState) ?t2 None" by code_simp
  have b2: "\<not> imageCommand ?t2" by code_simp
  have b3: "\<not> timeDateRegex (toLowerCase (trim ?t2))" by code_simp
  have b4: "creatorRegex (toLowerCase (trim ?t2))" by code_simp
  have b5: "\<not> includesStr (toLowerCase (trim ?t2)) ''quantum coders''" by code_simp
  have c1: "\<not> rejected (messages emptyState) ?t3 (Some exampleAttachment)" by code_simp
  have c2: "\<not> imageCommand ?t3" by code_simp
  have d1: "\<not> rejected (messages emptyState) ?t4 None" by code_simp
  have d2: "\<not> imageCommand ?t4" by code_simp
  have d3: "\<not> timeDateRegex (toLowerCase (trim ?t4))" by code_simp
  have d4: "includesStr (toLowerCase (trim ?t4)) ''quantum coders''" by code_simp
  from C5_hardcoded_answers [OF a1 a2, where env = exampleEnv] a3
  have A: "last (messages (afterTurn exampleEnv emptyState ?t1 None)) =
       (placeholder exampleEnv (selectedName exampleEnv ?t1))
         \<lparr>msg_text := ''The current date and time is: '' @ localeString exampleEnv,
          isLoading := Some False\<rparr>
     \<and> requests (sendMessage exampleEnv (messages emptyState) ?t1 None) = []"
    by blast
  from C5_hardcoded_answers [OF b1 b2, where env = exampleEnv] b3 b4 b5
  have B: "last (messages (afterTurn exampleEnv emptyState ?t2 None)) =
       (placeholder exampleEnv (selectedName exampleEnv ?t2))
         \<lparr>msg_text := ''I was created by **Mohammad Rayyan Ali**.'', isLoading := Some False\<rparr>
     \<and> requests (sendMessage exampleEnv (messages emptyState) ?t2 None) = []"
    by blast
  from C5_hardcoded_answers [OF c1 c2, where env = exampleEnv]
  have C: "sendMessage exampleEnv (messages emptyState) ?t3 (Some exampleAttachment) =
       fromApiKey exampleEnv (messages emptyState) ?t3 (Some exampleAttachment)"
    by blast
  from C5_hardcoded_answers [OF d1 d2, where env = exampleEnv] d3 d4
  have D: "sendMessage exampleEnv (messages emptyState) ?t4 None =
       fromApiKey exampleEnv (messages emptyState) ?t4 None"
    by blast
  from a1 a2 a3 a4 A b1 b2 b3 b4 b5 B c1 c2 C d1 d2 d3 d4 D show ?thesis by blast
qed

text \<open>
  Claim C6, as stated with the pattern nearby, location, place, address, where is:
  \<^verbatim>\<open>recommend a restaurant\<close> matches none of these five, yet the source's pattern has
  \<^verbatim>\<open>restaurant\<close> among its alternatives, so the maps tool is enabled and geolocation
  is read.
\<close>

theorem C6_map_pattern_counterexample:
  "reachesService exampleEnv (messages emptyState) ''recommend a restaurant'' None
   \<and> \<not> specMapQueryPattern (toLowerCase (trim ''recommend a restaurant''))
   \<and> map tools (requests (sendMessage exampleEnv (messages emptyState) ''recommend a restaurant'' None)) =
       [[GoogleSearch, GoogleMaps]]
   \<and> geoCalls (sendMessage exampleEnv (messages emptyState) ''recommend a restaurant'' None) = [10000]"
  by code_simp

text \<open>
  Claim C6, amended. In every turn that reaches the request: the web-search tool is
  enabled; the maps tool is enabled exactly when the lower-cased text matches
  \<^verbatim>\<open>\b(near|nearby|location|place|restaurant|cafe|hotel|park|address|direction|where is|at)\b\<close>,
  which holds in particular when it matches one of nearby, location, place, address,
  where is; in that case, and only then, geolocation is read once, with a timeout of
  10000 milliseconds; a position read is attached as retrieval bias; when the read
  fails, for whatever reason, the same request is sent without it and the turn runs
  through the stream as usual.
\<close>

theorem C6_tools_and_geolocation:
  assumes rs: "reachesService env (messages st) t a"
  shows "requests (sendMessage env (messages st) t a) =
           [buildRequest env (messages st) t a (selectAgent env t) (selectedName env t)]
       \<and> GoogleSearch \<in> set (tools (buildRequest env (messages st) t a (selectAgent env t)
                                      (selectedName env t)))
       \<and> (GoogleMaps \<in> set (tools (buildRequest env (messages st) t a (selectAgent env t)
                                      (selectedName env t)))
            \<longleftrightarrow> mapQueryRegex (toLowerCase (trim t)))
       \<and> (specMapQueryPattern (toLowerCase (trim t)) \<longrightarrow>
            GoogleMaps \<in> set (tools (buildRequest env (messages st) t a (selectAgent env t)
                                      (selectedName env t))))
       \<and> geoCalls (sendMessage env (messages st) t a) =
           (if mapQueryRegex (toLowerCase (trim t)) then [10000] else [])
       \<and> (\<forall>pos. mapQueryRegex (toLowerCase (trim t)) \<and> geolocation env = Inr pos \<longrightarrow>
             toolConfig (buildRequest env (messages st) t a (selectAgent env t)
                           (selectedName env t)) = Some pos)
       \<and> (\<forall>f. geolocation env = Inl f \<longrightarrow>
             toolConfig (buildRequest env (messages st) t a (selectAgent env t)
                           (selectedName env t)) = None)
       \<and> (\<forall>f. buildRequest (env\<lparr>geolocation := Inl f\<rparr>) (messages st) t a (selectAgent env t)
                 (selectedName env t)
               = (buildRequest env (messages st) t a (selectAgent env t) (selectedName env t))
                   \<lparr>toolConfig := None\<rparr>)
       \<and> updates (sendMessage env (messages st) t a) =
           created env t a
           @ updates (tryBlock env (messages st) t a (selectAgent env t) (selectedName env t))"
proof -
  let ?r = "buildRequest env (messages st) t a (selectAgent env t) (selectedName env t)"
  have 1: "requests (sendMessage env (messages st) t a) = [?r]"
    by (simp add: sendMessage_service [OF rs] tryBlock_requests)
  have 2: "GoogleSearch \<in> set (tools ?r)" by (simp add: buildRequest_tools)
  have 3: "GoogleMaps \<in> set (tools ?r) \<longleftrightarrow> mapQueryRegex (toLowerCase (trim t))"
    by (simp add: buildRequest_tools)
  have 9: "specMapQueryPattern (toLowerCase (trim t)) \<longrightarrow> GoogleMaps \<in> set (tools ?r)"
    using specMapQueryPattern_imp [of "toLowerCase (trim t)"] by (simp add: buildRequest_tools)
  have 4: "geoCalls (sendMessage env (messages st) t a) =
             (if mapQueryRegex (toLowerCase (trim t)) then [10000] else [])"
    by (simp add: sendMessage_service [OF rs] tryBlock_geoCalls)
  have 5: "\<forall>pos. mapQueryRegex (toLowerCase (trim t)) \<and> geolocation env = Inr pos \<longrightarrow>
             toolConfig ?r = Some pos"
    by (simp add: buildRequest_toolConfig)
  have 6: "\<forall>f. geolocation env = Inl f \<longrightarrow> toolConfig ?r = None"
    by (auto simp: buildRequest_toolConfig)
  have 7: "\<forall>f. buildRequest (env\<lparr>geolocation := Inl f\<rparr>) (messages st) t a (selectAgent env t)
                 (selectedName env t) = ?r\<lparr>toolConfig := None\<rparr>"
    by (simp add: buildRequest_geolocation_failed)
  have 8: "updates (sendMessage env (messages st) t a) =
           created env t a
           @ updates (tryBlock env (messages st) t a (selectAgent env t) (selectedName env t))"
    by (simp add: sendMessage_service [OF rs])
  from 1 2 3 9 4 5 6 7 8 show ?thesis by blast
qed

text \<open>A map query with geolocation denied.\<close>

theorem C6_tools_and_geolocation_witness:
  "reachesService exampleEnv (messages emptyState) ''Where is the nearest cafe?'' None
   \<and> mapQueryRegex (toLowerCase (trim ''Where is the nearest cafe?''))
   \<and> geolocation exampleEnv = Inl PermissionDenied
   \<and> requests (sendMessage exampleEnv (messages emptyState) ''Where is the nearest cafe?'' None) =
       [buildRequest exampleEnv (messages emptyState) ''Where is the nearest cafe?'' None
          (selectAgent exampleEnv ''Where is the nearest cafe?'')
          (selectedName exampleEnv ''Where is the nearest cafe?'')]
   \<and> tools (buildRequest exampleEnv (messages emptyState) ''Where is the nearest cafe?'' None
          (selectAgent exampleEnv ''Where is the nearest cafe?'')
          (selectedName exampleEnv ''Where is the nearest cafe?'')) = [GoogleSearch, GoogleMaps]
   \<and> toolConfig (buildRequest exampleEnv (messages emptyState) ''Where is the nearest cafe?'' None
          (selectAgent exampleEnv ''Where is the nearest cafe?'')
          (selectedName exampleEnv ''Where is the nearest cafe?'')) = None
   \<and> geoCalls (sendMessage exampleEnv (messages emptyState) ''Where is the nearest cafe?'' None) =
       [10000]"
proof -
  let ?t = "''Where is the nearest cafe?''"
  have h: "reachesService exampleEnv (messages emptyState) ?t None" by code_simp
  have m: "mapQueryRegex (toLowerCase (trim ?t))" by code_simp
  have g: "geolocation exampleEnv = Inl PermissionDenied" by (simp add: exampleEnv_def)
  have tl: "tools (buildRequest exampleEnv (messages emptyState) ?t None
          (selectAgent exampleEnv ?t) (selectedName exampleEnv ?t)) = [GoogleSearch, GoogleMaps]"
    using m by (simp add: buildRequest_tools)
  from C6_tools_and_geolocation [OF h] m g
  have "requests (sendMessage exampleEnv (messages emptyState) ?t None) =
       [buildRequest exampleEnv (messages emptyState) ?t None
          (selectAgent exampleEnv ?t) (selectedName exampleEnv ?t)]"
    and "toolConfig (buildRequest exampleEnv (messages emptyState) ?t None
          (selectAgent exampleEnv ?t) (selectedName exampleEnv ?t)) = None"
    and "geoCalls (sendMessage exampleEnv (messages emptyState) ?t None) = [10000]"
    by simp_all
  with h m g tl show ?thesis by blast
qed

text \<open>
  Claim C7. While a message is loading a submission is a no-op, so that at most one
  message is ever loading. A call that reads a transcript with a loading message is a
  no-op indeed (\<open>busy_call_is_no_op\<close>), and calls that run one after the other keep at
  most one loading message (\<open>afterTurn_loadingCount\<close>). But the guard reads the
  transcript of the render, and the first write comes after \<^verbatim>\<open>await selectAgent\<close>:
  two calls made in the same render of the empty transcript both pass the guard, both
  append their placeholder, and the transcript holds two loading messages.
\<close>

theorem C7_overlapping_calls_two_loading:
  "\<not> isBusy (messages emptyState)
   \<and> immediateUpdate (sendMessage exampleEnv (messages emptyState) ''hello'' None) =
       [AppendTurn (userMessage exampleEnv ''hello'' None) (placeholder exampleEnv ''Zephyr''),
        ClearInput]
   \<and> immediateUpdate (sendMessage laterEnv (messages emptyState) ''hello'' None) =
       [AppendTurn (userMessage laterEnv ''hello'' None) (placeholder laterEnv ''Zephyr''),
        ClearInput]
   \<and> messages (overlappingCalls exampleEnv ''hello'' None laterEnv ''hello'' None emptyState) =
       [userMessage exampleEnv ''hello'' None, placeholder exampleEnv ''Zephyr'',
        userMessage laterEnv ''hello'' None, placeholder laterEnv ''Zephyr'']
   \<and> loadingCount
        (messages (overlappingCalls exampleEnv ''hello'' None laterEnv ''hello'' None emptyState)) = 2"
  by code_simp

text \<open>
  Claim C8. A call of \<^verbatim>\<open>sendMessage\<close> whose trimmed text is empty and that carries
  no image attachment changes nothing: it returns at the guard, so it writes nothing
  to the state (the transcript, the input box and the attachment stay as they are, no
  message is appended), it does not ask the persona classifier or the geolocation
  provider, and it sends no request.
\<close>

theorem C8_empty_submission_is_no_op:
  assumes "trim messageText = []"
  shows "updates (sendMessage env (messages st) messageText None) = []
       \<and> agentCalls (sendMessage env (messages st) messageText None) = []
       \<and> geoCalls (sendMessage env (messages st) messageText None) = []
       \<and> requests (sendMessage env (messages st) messageText None) = []
       \<and> afterTurn env st messageText None = st"
proof -
  from assms have "rejected (messages st) messageText None" by (simp add: rejected_def)
  then have "sendMessage env (messages st) messageText None = noTurn"
    by (simp add: sendMessage_def)
  then show ?thesis by (simp add: noTurn_def afterTurn_def applyAll_Nil)
qed

text \<open>The text of a blank, a tab and a blank, submitted on the empty transcript.\<close>

theorem C8_empty_submission_witness:
  "trim [CHR 0x20, CHR 0x09, CHR 0x20] = []
   \<and> updates (sendMessage exampleEnv (messages emptyState) [CHR 0x20, CHR 0x09, CHR 0x20] None) = []
   \<and> agentCalls (sendMessage exampleEnv (messages emptyState) [CHR 0x20, CHR 0x09, CHR 0x20] None) = []
   \<and> geoCalls (sendMessage exampleEnv (messages emptyState) [CHR 0x20, CHR 0x09, CHR 0x20] None) = []
   \<and> requests (sendMessage exampleEnv (messages emptyState) [CHR 0x20, CHR 0x09, CHR 0x20] None) = []
   \<and> afterTurn exampleEnv emptyState [CHR 0x20, CHR 0x09, CHR 0x20] None = emptyState"
proof -
  have h: "trim [CHR 0x20, CHR 0x09, CHR 0x20] = []" by code_simp
  from C8_empty_submission_is_no_op [OF h, of exampleEnv emptyState] h show ?thesis by blast
qed

text \<open>
  Claim C9. In a turn that passed the guard, is not an image command and got no
  hard-coded answer, an absent (or empty) API key fills the placeholder with
  \<^verbatim>\<open>Error: API Key missing.\<close> and sets its loading to false; no request is sent, no
  geolocation read, and no message is loading afterwards.
\<close>

theorem C9_missing_api_key:
  assumes "\<not> rejected (messages st) t a"
    and "\<not> imageCommand t"
    and "\<not> timeAnswer t a"
    and "\<not> creatorAnswer t a"
    and "\<not> truthy (apiKey env)"
  shows "updates (sendMessage env (messages st) t a) =
           created env t a @ [FillText (placeholderId env) ''Error: API Key missing.'']
       \<and> requests (sendMessage env (messages st) t a) = []
       \<and> geoCalls (sendMessage env (messages st) t a) = []
       \<and> last (messages (afterTurn env st t a)) =
           (placeholder env (selectedName env t))
             \<lparr>msg_text := ''Error: API Key missing.'', isLoading := Some False\<rparr>
       \<and> \<not> isBusy (messages (afterTurn env st t a))"
proof -
  from assms have T: "sendMessage env (messages st) t a = answer env t a ''Error: API Key missing.''"
    by (simp add: sendMessage_def fromApiKey_def)
  from assms(1) have idle: "\<not> isBusy (messages st)" by (simp add: rejected_def)
  have u: "updates (sendMessage env (messages st) t a) =
             created env t a @ [FillText (placeholderId env) ''Error: API Key missing.'']"
    and r: "requests (sendMessage env (messages st) t a) = []"
    and g: "geoCalls (sendMessage env (messages st) t a) = []"
    by (simp_all add: T answer_def)
  have l: "last (messages (afterTurn env st t a)) =
             (placeholder env (selectedName env t))
               \<lparr>msg_text := ''Error: API Key missing.'', isLoading := Some False\<rparr>"
    unfolding afterTurn_def T
    by (rule answer_last)
  have b: "\<not> isBusy (messages (afterTurn env st t a))"
    unfolding afterTurn_def T
    by (rule answer_not_busy [OF idle])
  from u r g l b show ?thesis by blast
qed

text \<open>\<^verbatim>\<open>hello\<close> without an API key.\<close>

theorem C9_missing_api_key_witness:
  "\<not> rejected (messages emptyState) ''hello'' None
   \<and> \<not> imageCommand ''hello''
   \<and> \<not> timeAnswer ''hello'' None
   \<and> \<not> creatorAnswer ''hello'' None
   \<and> \<not> truthy (apiKey keylessEnv)
   \<and> requests (sendMessage keylessEnv (messages emptyState) ''hello'' None) = []
   \<and> last (messages (afterTurn keylessEnv emptyState ''hello'' None)) =
       (placeholder keylessEnv (selectedName keylessEnv ''hello''))
         \<lparr>msg_text := ''Error: API Key missing.'', isLoading := Some False\<rparr>"
proof -
  have h1: "\<not> rejected (messages emptyState) ''hello'' None" by code_simp
  have h2: "\<not> imageCommand ''hello''" by code_simp
  have h3: "\<not> timeAnswer ''hello'' None" by code_simp
  have h4: "\<not> creatorAnswer ''hello'' None" by code_simp
  have h5: "\<not> truthy (apiKey keylessEnv)" by code_simp
  from C9_missing_api_key [OF h1 h2 h3 h4 h5] h1 h2 h3 h4 h5 show ?thesis by blast
qed

text \<open>
  Claim C10. The contents of the request are, for each prior message that is not
  loading, its role and one text part with its text, followed by the current turn: the
  trimmed text, if any, and the attachment of this call, if any, as the only inline
  data. Every part of the history is a text part, so images of prior messages are not
  sent.
\<close>

theorem C10_history_is_role_and_text:
  assumes rs: "reachesService env (messages st) t a"
  shows "requests (sendMessage env (messages st) t a) =
           [buildRequest env (messages st) t a (selectAgent env t) (selectedName env t)]
       \<and> contents (buildRequest env (messages st) t a (selectAgent env t) (selectedName env t)) =
           map (\<lambda>msg. \<lparr>content_role = role msg, parts = [TextPart (msg_text msg)]\<rparr>)
               (filter (\<lambda>m. \<not> loading m) (messages st))
           @ [\<lparr>content_role = USER,
               parts = (if trim t \<noteq> [] then [TextPart (trim t)] else [])
                       @ (case a of None \<Rightarrow> []
                          | Some att \<Rightarrow> [InlineData (mimeType att) (att_data att)])\<rparr>]
       \<and> (\<forall>c \<in> set (butlast (contents (buildRequest env (messages st) t a (selectAgent env t)
                                          (selectedName env t)))).
             \<forall>p \<in> set (parts c). \<exists>s. p = TextPart s)"
proof -
  let ?r = "buildRequest env (messages st) t a (selectAgent env t) (selectedName env t)"
  have 1: "requests (sendMessage env (messages st) t a) = [?r]"
    by (simp add: sendMessage_service [OF rs] tryBlock_requests)
  have 2: "contents ?r =
           map (\<lambda>msg. \<lparr>content_role = role msg, parts = [TextPart (msg_text msg)]\<rparr>)
               (filter (\<lambda>m. \<not> loading m) (messages st))
           @ [\<lparr>content_role = USER,
               parts = (if trim t \<noteq> [] then [TextPart (trim t)] else [])
                       @ (case a of None \<Rightarrow> []
                          | Some att \<Rightarrow> [InlineData (mimeType att) (att_data att)])\<rparr>]"
    by (simp add: buildRequest_contents historyForAPI_def currentParts_def)
  have "butlast (contents ?r) = historyForAPI (messages st)"
    by (simp add: buildRequest_contents butlast_append)
  with historyForAPI_text_only [of "messages st"]
  have 3: "\<forall>c \<in> set (butlast (contents ?r)). \<forall>p \<in> set (parts c). \<exists>s. p = TextPart s"
    by fastforce
  from 1 2 3 show ?thesis by blast
qed

text \<open>A prior user message with an image, and a new submission with an attachment.\<close>

theorem C10_history_witness:
  "reachesService exampleEnv (messages historyState) ''and this one?'' (Some exampleAttachment)
   \<and> msg_image (hd (messages historyState)) = Some ''data:image/jpeg;base64,WFla''
   \<and> contents (buildRequest exampleEnv (messages historyState) ''and this one?''
                  (Some exampleAttachment) (selectAgent exampleEnv ''and this one?'')
                  (selectedName exampleEnv ''and this one?'')) =
       [\<lparr>content_role = USER, parts = [TextPart ''what is this?'']\<rparr>,
        \<lparr>content_role = MODEL, parts = [TextPart ''A cat.'']\<rparr>,
        \<lparr>content_role = USER,
         parts = [TextPart ''and this one?'', InlineData ''image/jpeg'' ''QUJD'']\<rparr>]"
proof -
  let ?t = "''and this one?''"
  have h: "reachesService exampleEnv (messages historyState) ?t (Some exampleAttachment)"
    by code_simp
  have i: "msg_image (hd (messages historyState)) = Some ''data:image/jpeg;base64,WFla''"
    by (simp add: historyState_def)
  have tr: "trim ?t = ?t" by code_simp
  have e: "map (\<lambda>msg. \<lparr>content_role = role msg, parts = [TextPart (msg_text msg)]\<rparr>)
               (filter (\<lambda>m. \<not> loading m) (messages historyState))
           @ [\<lparr>content_role = USER,
               parts = (if trim ?t \<noteq> [] then [TextPart (trim ?t)] else [])
                       @ (case Some exampleAttachment of None \<Rightarrow> []
                          | Some att \<Rightarrow> [InlineData (mimeType att) (att_data att)])\<rparr>]
         = [\<lparr>content_role = USER, parts = [TextPart ''what is this?'']\<rparr>,
            \<lparr>content_role = MODEL, parts = [TextPart ''A cat.'']\<rparr>,
            \<lparr>content_role = USER,
             parts = [TextPart ''and this one?'', InlineData ''image/jpeg'' ''QUJD'']\<rparr>]"
    by (simp add: tr historyState_def loading_def exampleAttachment_def)
  from C10_history_is_role_and_text [OF h] e h i show ?thesis by simp
qed

end
